theory Spec2Isabelle
  imports Complex_Main "HOL-Library.List_Lexorder" "HOL-Library.Char_ord"
begin

section \<open>RoadCast API: the forecast cache, the KNMI warnings path and the response mapper\<close>

text \<open>
  The repository holds two hosting shells with the same helpers: the FastAPI route
  \<^verbatim>\<open>get_weather\<close> of \<^verbatim>\<open>src/api/index.py\<close> and the AWS Lambda entry point
  \<^verbatim>\<open>lambda_handler\<close> of \<^verbatim>\<open>src/main.py\<close>. Both are embedded below, function by
  function. Python exceptions are values of \<open>py_exn\<close> on the left of a sum; the two module
  globals \<^verbatim>\<open>data_cache\<close> and \<^verbatim>\<open>last_loaded\<close> are a record that each handler
  takes and returns; everything a handler reads from outside the process (the clocks, the
  environment variables, the answers of the two upstream providers) is a record
  \<open>world\<close>, and every \<^verbatim>\<open>requests.get\<close> a handler performs is appended to a log.
\<close>

subsection \<open>Values decoded from JSON, and Python exceptions\<close>

text \<open>
  What \<^verbatim>\<open>response.json()\<close> returns: \<open>JNull\<close> is Python's \<^verbatim>\<open>None\<close>, \<open>JObj\<close> a
  \<^verbatim>\<open>dict\<close> with string keys (an association list read with \<open>map_of\<close>), \<open>JArr\<close> a
  \<^verbatim>\<open>list\<close>. Numbers are passed through and never computed with.
\<close>

datatype json =
    JNull
  | JBool bool
  | JNum rat
  | JStr string
  | JArr "json list"
  | JObj "(string \<times> json) list"

datatype py_exn =
    KeyError
  | IndexError
  | TypeError
  | AttributeError
  | ValueError
  | RequestException
  | HTTPError
  | JSONDecodeError
  | ParseError

definition exn_bind :: "py_exn + 'a \<Rightarrow> ('a \<Rightarrow> py_exn + 'b) \<Rightarrow> py_exn + 'b" where
  "exn_bind m f = (case m of Inl e \<Rightarrow> Inl e | Inr x \<Rightarrow> f x)"

text \<open>\<^verbatim>\<open>obj[key]\<close> with a string key: only a dict supports it.\<close>

fun getitem_str :: "json \<Rightarrow> string \<Rightarrow> py_exn + json" where
  "getitem_str (JObj kvs) k = (case map_of kvs k of None \<Rightarrow> Inl KeyError | Some v \<Rightarrow> Inr v)"
| "getitem_str _ k = Inl TypeError"

text \<open>\<^verbatim>\<open>obj.get(key, [])\<close>: only a dict has the method.\<close>

fun dict_get :: "json \<Rightarrow> string \<Rightarrow> py_exn + json" where
  "dict_get (JObj kvs) k = (case map_of kvs k of None \<Rightarrow> Inr (JArr []) | Some v \<Rightarrow> Inr v)"
| "dict_get _ k = Inl AttributeError"

text \<open>\<^verbatim>\<open>len(values)\<close>: lists, strings and dicts have a length, the other values raise.\<close>

fun py_len :: "json \<Rightarrow> py_exn + int" where
  "py_len (JArr xs) = Inr (int (length xs))"
| "py_len (JStr s) = Inr (int (length s))"
| "py_len (JObj kvs) = Inr (int (length (remdups (map fst kvs))))"
| "py_len _ = Inl TypeError"

text \<open>
  \<^verbatim>\<open>xs[i]\<close> on a sequence with Python's unbounded integer index: a negative index counts
  from the end, and an index outside \<open>-n \<le> i < n\<close> raises \<^verbatim>\<open>IndexError\<close>.
\<close>

definition seq_getitem :: "'a list \<Rightarrow> int \<Rightarrow> py_exn + 'a" where
  "seq_getitem xs i =
     (if 0 \<le> i \<and> i < int (length xs) then Inr (xs ! nat i)
      else if i < 0 \<and> - int (length xs) \<le> i then Inr (xs ! nat (int (length xs) + i))
      else Inl IndexError)"

text \<open>
  \<^verbatim>\<open>values[index]\<close> with an integer index. A dict decoded from JSON has string keys
  only, so an integer key is never found.
\<close>

fun getitem_int :: "json \<Rightarrow> int \<Rightarrow> py_exn + json" where
  "getitem_int (JArr xs) i = seq_getitem xs i"
| "getitem_int (JStr s) i = exn_bind (seq_getitem s i) (\<lambda>c. Inr (JStr [c]))"
| "getitem_int (JObj kvs) i = Inl KeyError"
| "getitem_int _ i = Inl TypeError"

subsection \<open>The response mapper (\<^verbatim>\<open>RoadCastApiResponse\<close>, \<^verbatim>\<open>weather_response_mapper\<close>)\<close>

text \<open>One entry of the warnings list: \<^verbatim>\<open>{"color": ..., "type": ...}\<close>, each the result of
  \<^verbatim>\<open>findtext\<close>, which is \<^verbatim>\<open>None\<close> when the element has no such child.\<close>

record warning =
  color :: "string option"
  type :: "string option"

record RoadCastApiResponse =
  min_temp :: json
  max_temp :: json
  rain :: json
  showers :: json
  snow :: json
  sunrise :: json
  sunset :: json
  min_visibility :: json
  max_visibility :: json
  wind_speed :: json
  wind_gusts :: json
  warnings :: "warning list"

text \<open>
  The inner function of \<^verbatim>\<open>from_api\<close>:
  \<^verbatim>\<open>values = daily.get(key, []); return values[index] if index < len(values) else None\<close>.
\<close>

definition get_val :: "json \<Rightarrow> int \<Rightarrow> string \<Rightarrow> py_exn + json" where
  "get_val daily index key =
     exn_bind (dict_get daily key) (\<lambda>values.
     exn_bind (py_len values) (\<lambda>n.
       if index < n then getitem_int values index else Inr JNull))"

text \<open>
  \<^verbatim>\<open>RoadCastApiResponse.from_api(response, index)\<close>. The eleven keyword arguments are
  evaluated in the order they are written, so the first one that raises decides the
  exception. The constructor's \<^verbatim>\<open>warnings=None\<close> becomes \<^verbatim>\<open>[]\<close>.
\<close>

definition from_api :: "json \<Rightarrow> int \<Rightarrow> py_exn + RoadCastApiResponse" where
  "from_api response index =
     exn_bind (getitem_str response ''daily'') (\<lambda>daily.
     exn_bind (get_val daily index ''temperature_2m_min'') (\<lambda>v1.
     exn_bind (get_val daily index ''temperature_2m_max'') (\<lambda>v2.
     exn_bind (get_val daily index ''rain_sum'') (\<lambda>v3.
     exn_bind (get_val daily index ''showers_sum'') (\<lambda>v4.
     exn_bind (get_val daily index ''snowfall_sum'') (\<lambda>v5.
     exn_bind (get_val daily index ''sunrise'') (\<lambda>v6.
     exn_bind (get_val daily index ''sunset'') (\<lambda>v7.
     exn_bind (get_val daily index ''visibility_min'') (\<lambda>v8.
     exn_bind (get_val daily index ''visibility_max'') (\<lambda>v9.
     exn_bind (get_val daily index ''wind_speed_10m_max'') (\<lambda>v10.
     exn_bind (get_val daily index ''wind_gusts_10m_max'') (\<lambda>v11.
       Inr \<lparr> min_temp = v1, max_temp = v2, rain = v3, showers = v4, snow = v5,
             sunrise = v6, sunset = v7, min_visibility = v8, max_visibility = v9,
             wind_speed = v10, wind_gusts = v11, warnings = [] \<rparr>))))))))))))"

text \<open>\<^verbatim>\<open>api.warnings = warnings or []\<close>: an empty list is replaced by an empty list.\<close>

definition weather_response_mapper ::
    "json \<Rightarrow> int \<Rightarrow> warning list \<Rightarrow> py_exn + RoadCastApiResponse" where
  "weather_response_mapper response day_index ws =
     exn_bind (from_api response day_index) (\<lambda>api. Inr (api\<lparr>warnings := ws\<rparr>))"

definition opt_json :: "string option \<Rightarrow> json" where
  "opt_json v = (case v of None \<Rightarrow> JNull | Some s \<Rightarrow> JStr s)"

definition warning_dict :: "warning \<Rightarrow> json" where
  "warning_dict w = JObj [(''color'', opt_json (color w)), (''type'', opt_json (type w))]"

definition to_dict :: "RoadCastApiResponse \<Rightarrow> json" where
  "to_dict r = JObj
     [(''min_temp'', min_temp r), (''max_temp'', max_temp r), (''rain'', rain r),
      (''showers'', showers r), (''snow'', snow r), (''sunrise'', sunrise r),
      (''sunset'', sunset r), (''min_visibility'', min_visibility r),
      (''max_visibility'', max_visibility r), (''wind_speed'', wind_speed r),
      (''wind_gusts'', wind_gusts r), (''warnings'', JArr (map warning_dict (warnings r)))]"

subsection \<open>The warnings provider: file listing, download, XML, timestamps\<close>

text \<open>
  The three library functions whose text is not in the repository are parameters of the
  model: \<^verbatim>\<open>ET.fromstring\<close> (\<open>None\<close>: it raises \<^verbatim>\<open>ParseError\<close>),
  \<^verbatim>\<open>datetime.fromisoformat\<close> and \<^verbatim>\<open>int\<close> on a string (\<open>None\<close>: they raise
  \<^verbatim>\<open>ValueError\<close>). Every theorem below holds for any choice of them.
\<close>

datatype element = Element (tag: string) (elem_text: "string option") (children: "element list")

text \<open>
  A \<^verbatim>\<open>datetime\<close> is a count of microseconds, since the epoch in UTC when it carries a
  time zone (\<open>Aware\<close>), on its own wall clock when it does not (\<open>Naive\<close>). Python
  refuses to order an aware and a naive value.
\<close>

datatype datetime = Aware int | Naive int

record pylib =
  fromstring :: "string \<Rightarrow> element option"
  fromisoformat :: "string \<Rightarrow> datetime option"
  int_of_str :: "string \<Rightarrow> int option"

fun dt_le :: "datetime \<Rightarrow> datetime \<Rightarrow> py_exn + bool" where
  "dt_le (Aware a) (Aware b) = Inr (a \<le> b)"
| "dt_le (Naive a) (Naive b) = Inr (a \<le> b)"
| "dt_le _ _ = Inl TypeError"

definition us_per_second :: int where
  "us_per_second = 1000000"

definition us_per_day :: int where
  "us_per_day = 86400 * us_per_second"

text \<open>
  \<^verbatim>\<open>dt.replace(hour=h, minute=m, second=s)\<close> on a UTC instant: the date is kept, the
  three fields are set, and the microsecond field, which the call does not name, is kept
  too.
\<close>

definition replace_hms :: "int \<Rightarrow> int \<Rightarrow> int \<Rightarrow> int \<Rightarrow> int" where
  "replace_hms t h m s =
     (t div us_per_day) * us_per_day + (h * 3600 + m * 60 + s) * us_per_second
       + t mod us_per_second"

text \<open>\<^verbatim>\<open>(now + timedelta(days=1)).replace(hour=23, minute=59, second=59)\<close>. (The
  last day of the year 9999, on which the addition overflows, is not modelled.)\<close>

definition end_of_tomorrow :: "int \<Rightarrow> int" where
  "end_of_tomorrow now = replace_hms (now + us_per_day) 23 59 59"

text \<open>\<^verbatim>\<open>root.findall(".//warning")\<close>: every element below the root with that tag, in
  document order.\<close>

fun descendants :: "element \<Rightarrow> element list" where
  "descendants (Element t x cs) = concat (map (\<lambda>c. c # descendants c) cs)"

definition findall :: "element \<Rightarrow> string \<Rightarrow> element list" where
  "findall tree name = filter (\<lambda>e. tag e = name) (descendants tree)"

text \<open>\<^verbatim>\<open>elem.findtext(name)\<close>: the text of the first child with that tag (the empty
  string when the child has no text), \<^verbatim>\<open>None\<close> when there is no such child.\<close>

definition findtext :: "element \<Rightarrow> string \<Rightarrow> string option" where
  "findtext e name =
     (case filter (\<lambda>c. tag c = name) (children e) of
        [] \<Rightarrow> None
      | c # _ \<Rightarrow> Some (case elem_text c of None \<Rightarrow> [] | Some s \<Rightarrow> s))"

text \<open>\<^verbatim>\<open>datetime.fromisoformat(w.findtext(name))\<close>: \<^verbatim>\<open>None\<close> is a \<^verbatim>\<open>TypeError\<close>.\<close>

definition parse_time :: "pylib \<Rightarrow> element \<Rightarrow> string \<Rightarrow> py_exn + datetime" where
  "parse_time lib w name =
     (case findtext w name of
        None \<Rightarrow> Inl TypeError
      | Some s \<Rightarrow> (case fromisoformat lib s of None \<Rightarrow> Inl ValueError | Some d \<Rightarrow> Inr d))"

text \<open>
  The test \<^verbatim>\<open>start <= end_of_tomorrow and end >= now\<close>. The second comparison is
  evaluated only when the first is true.
\<close>

definition is_active :: "int \<Rightarrow> datetime \<Rightarrow> datetime \<Rightarrow> py_exn + bool" where
  "is_active now start end_t =
     exn_bind (dt_le start (Aware (end_of_tomorrow now))) (\<lambda>b.
       if b then dt_le (Aware now) end_t else Inr False)"

text \<open>The body of the \<^verbatim>\<open>for\<close> loop of \<^verbatim>\<open>parse_knmi_warnings\<close>, over the elements
  still to visit, with the list \<^verbatim>\<open>results\<close> built so far.\<close>

fun parse_loop ::
    "pylib \<Rightarrow> int \<Rightarrow> element list \<Rightarrow> warning list \<Rightarrow> py_exn + warning list" where
  "parse_loop lib now [] results = Inr results"
| "parse_loop lib now (w # ws) results =
     exn_bind (parse_time lib w ''startTime'') (\<lambda>start.
     exn_bind (parse_time lib w ''endTime'') (\<lambda>end_t.
     exn_bind (is_active now start end_t) (\<lambda>keep.
       parse_loop lib now ws
         (if keep
          then results @ [\<lparr> color = findtext w ''awarenessLevel'',
                             type = findtext w ''phenomenon'' \<rparr>]
          else results))))"

definition parse_knmi_warnings :: "pylib \<Rightarrow> int \<Rightarrow> string \<Rightarrow> py_exn + warning list" where
  "parse_knmi_warnings lib now xml_text =
     (case fromstring lib xml_text of
        None \<Rightarrow> Inl ParseError
      | Some tree \<Rightarrow> parse_loop lib now (findall tree ''warning'') [])"

text \<open>
  One entry of the provider's file listing. A field is \<open>None\<close> when the entry lacks the
  key, which makes the subscript raise \<^verbatim>\<open>KeyError\<close>. Creation stamps are strings and
  are ordered as Python orders strings, character by character.
\<close>

record knmi_file =
  created :: "string option"
  downloadUrl :: "string option"

text \<open>
  What \<^verbatim>\<open>requests.get(url, ...).json()["files"]\<close> meets: a body that is not JSON, a
  JSON object without the key (the answer to a rejected credential), or the listing.
\<close>

datatype listing = NotJson | NoFiles | Files "knmi_file list"

text \<open>The answer of the forecast provider: \<open>json_body\<close> is \<open>None\<close> when the body does
  not decode.\<close>

record http_response =
  status_code :: nat
  json_body :: "json option"

text \<open>
  What one request reads from outside the process. Each \<open>_get\<close> field is the outcome of
  the corresponding \<^verbatim>\<open>requests.get\<close>: \<open>Inl\<close> when the call itself raises (no
  connection, time-out after 10 seconds). The listing is asked with the
  \<^verbatim>\<open>Authorization\<close> header, the download with the URL and the header.
\<close>

record world =
  time_time :: real
  utc_now :: int
  environ :: "string \<Rightarrow> string option"
  forecast_get :: "py_exn + http_response"
  files_get :: "string \<Rightarrow> py_exn + listing"
  download_get :: "string \<Rightarrow> string \<Rightarrow> py_exn + string"

datatype call = ForecastCall | FilesCall string | DownloadCall string string

text \<open>\<^verbatim>\<open>sorted(xs, key=..., reverse=True)\<close> on pairs of key and item: CPython reverses
  the list, sorts it stably in ascending order and reverses the result.\<close>

definition sorted_reverse :: "('k::linorder \<times> 'a) list \<Rightarrow> ('k \<times> 'a) list" where
  "sorted_reverse xs = rev (sort_key fst (rev xs))"

text \<open>The key function \<^verbatim>\<open>lambda f: f["created"]\<close> is applied to every file, in
  order, before anything is compared.\<close>

fun created_keys :: "knmi_file list \<Rightarrow> py_exn + (string \<times> knmi_file) list" where
  "created_keys [] = Inr []"
| "created_keys (f # fs) =
     (case created f of
        None \<Rightarrow> Inl KeyError
      | Some k \<Rightarrow> exn_bind (created_keys fs) (\<lambda>rest. Inr ((k, f) # rest)))"

text \<open>\<^verbatim>\<open>latest = sorted(files, key=lambda f: f["created"], reverse=True)[0]\<close>\<close>

definition latest_file :: "knmi_file list \<Rightarrow> py_exn + knmi_file" where
  "latest_file files =
     exn_bind (created_keys files) (\<lambda>keyed.
       case sorted_reverse keyed of [] \<Rightarrow> Inl IndexError | (k, f) # _ \<Rightarrow> Inr f)"

text \<open>\<^verbatim>\<open>fetch_knmi_warnings(api_key)\<close>, with the calls it makes.\<close>

definition fetch_knmi_warnings :: "world \<Rightarrow> string \<Rightarrow> (py_exn + string) \<times> call list" where
  "fetch_knmi_warnings w api_key =
     (case files_get w api_key of
        Inl e \<Rightarrow> (Inl e, [FilesCall api_key])
      | Inr NotJson \<Rightarrow> (Inl JSONDecodeError, [FilesCall api_key])
      | Inr NoFiles \<Rightarrow> (Inl KeyError, [FilesCall api_key])
      | Inr (Files files) \<Rightarrow>
          (case latest_file files of
             Inl e \<Rightarrow> (Inl e, [FilesCall api_key])
           | Inr latest \<Rightarrow>
               (case downloadUrl latest of
                  None \<Rightarrow> (Inl KeyError, [FilesCall api_key])
                | Some url \<Rightarrow>
                    (download_get w url api_key,
                     [FilesCall api_key, DownloadCall url api_key]))))"

subsection \<open>The cache and the two handlers\<close>

text \<open>
  The module globals. \<^verbatim>\<open>data_cache\<close> starts as \<^verbatim>\<open>None\<close>, which is \<open>JNull\<close>, and
  \<^verbatim>\<open>last_loaded\<close> as 0. The readings of \<^verbatim>\<open>time.time()\<close> are taken as real numbers, and
  their difference as exact.
\<close>

record cache =
  data_cache :: json
  last_loaded :: real

definition initial_cache :: cache where
  "initial_cache = \<lparr> data_cache = JNull, last_loaded = 0 \<rparr>"

definition CACHE_TTL :: real where
  "CACHE_TTL = 120"

text \<open>The text an error response carries: a literal of the source, or \<^verbatim>\<open>str(exc)\<close> of
  the exception caught.\<close>

datatype detail = Message string | StrOf py_exn

text \<open>What the FastAPI route does: it returns the body (sent with status 200) or raises
  \<^verbatim>\<open>HTTPException(status_code, detail)\<close>.\<close>

datatype fastapi_result = Return json | HTTPException nat detail

fun status_of :: "fastapi_result \<Rightarrow> nat" where
  "status_of (Return b) = 200"
| "status_of (HTTPException c d) = c"

text \<open>
  What FastAPI sends for each outcome of the route. Its handler for \<^verbatim>\<open>HTTPException\<close>
  is part of the framework, not of the repository: it answers with the exception's
  status code and the JSON body \<^verbatim>\<open>{"detail": detail}\<close>. \<open>Content j\<close> is the body
  \<open>j\<close>, \<open>Detail d\<close> is the body \<^verbatim>\<open>{"detail": d}\<close>.
\<close>

datatype fastapi_body = Content json | Detail detail

fun fastapi_response :: "fastapi_result \<Rightarrow> nat \<times> fastapi_body" where
  "fastapi_response (Return b) = (200, Content b)"
| "fastapi_response (HTTPException c d) = (c, Detail d)"

text \<open>What the Lambda handler returns: \<open>Dumps j\<close> is \<^verbatim>\<open>json.dumps(j)\<close> and
  \<open>DumpsError d\<close> is \<^verbatim>\<open>json.dumps({"error": d})\<close>.\<close>

datatype body = Dumps json | DumpsError detail

record lambda_response =
  statusCode :: nat
  body :: body

text \<open>\<^verbatim>\<open>src/api/index.py\<close>, lines 31 to 44: \<^verbatim>\<open>requests.get\<close>,
  \<^verbatim>\<open>raise_for_status()\<close> (which raises on a status from 400 to 599), \<^verbatim>\<open>.json()\<close>.\<close>

definition fetch_forecast_api :: "world \<Rightarrow> py_exn + json" where
  "fetch_forecast_api w =
     (case forecast_get w of
        Inl e \<Rightarrow> Inl e
      | Inr r \<Rightarrow>
          if 400 \<le> status_code r \<and> status_code r < 600 then Inl HTTPError
          else (case json_body r of None \<Rightarrow> Inl JSONDecodeError | Some j \<Rightarrow> Inr j))"

text \<open>\<^verbatim>\<open>src/main.py\<close>, lines 37 to 48: \<^verbatim>\<open>requests.get(...).json()\<close>, whatever the
  status.\<close>

definition fetch_forecast_lambda :: "world \<Rightarrow> py_exn + json" where
  "fetch_forecast_lambda w =
     (case forecast_get w of
        Inl e \<Rightarrow> Inl e
      | Inr r \<Rightarrow> (case json_body r of None \<Rightarrow> Inl JSONDecodeError | Some j \<Rightarrow> Inr j))"

text \<open>
  The section \<^verbatim>\<open>FETCH WEATHER\<close> of \<^verbatim>\<open>get_weather\<close>. The result is the cache after the
  section, or \<open>None\<close> when the handler leaves with the 500 of line 48, and the calls made.
\<close>

definition weather_section_api :: "world \<Rightarrow> cache \<Rightarrow> cache option \<times> call list" where
  "weather_section_api w st =
     (let current_time = time_time w;
          cache_age = current_time - last_loaded st
      in if data_cache st = JNull \<or> cache_age > CACHE_TTL then
           (case fetch_forecast_api w of
              Inr payload \<Rightarrow>
                (Some \<lparr> data_cache = payload, last_loaded = current_time \<rparr>, [ForecastCall])
            | Inl e \<Rightarrow>
                (if data_cache st = JNull then None else Some st, [ForecastCall]))
         else (Some st, []))"

text \<open>The same section of \<^verbatim>\<open>lambda_handler\<close>.\<close>

definition weather_section_lambda :: "world \<Rightarrow> cache \<Rightarrow> cache option \<times> call list" where
  "weather_section_lambda w st =
     (let current_time = time_time w;
          cache_age = current_time - last_loaded st
      in if data_cache st = JNull \<or> cache_age > CACHE_TTL then
           (case fetch_forecast_lambda w of
              Inr payload \<Rightarrow>
                (Some \<lparr> data_cache = payload, last_loaded = current_time \<rparr>, [ForecastCall])
            | Inl e \<Rightarrow>
                (if data_cache st = JNull then None else Some st, [ForecastCall]))
         else (Some st, []))"

text \<open>
  The section \<^verbatim>\<open>FETCH KNMI WARNINGS\<close> of \<^verbatim>\<open>get_weather\<close>:
  \<^verbatim>\<open>api_key = os.getenv("KNMI_API_KEY", "")\<close>, and the \<^verbatim>\<open>try\<close> only \<^verbatim>\<open>if api_key\<close>.
\<close>

definition knmi_section_api :: "pylib \<Rightarrow> world \<Rightarrow> warning list \<times> call list" where
  "knmi_section_api lib w =
     (let api_key = (case environ w ''KNMI_API_KEY'' of None \<Rightarrow> [] | Some k \<Rightarrow> k)
      in if api_key \<noteq> [] then
           (case fetch_knmi_warnings w api_key of
              (Inl e, calls) \<Rightarrow> ([], calls)
            | (Inr knmi_xml, calls) \<Rightarrow>
                (case parse_knmi_warnings lib (utc_now w) knmi_xml of
                   Inl e \<Rightarrow> ([], calls)
                 | Inr ws \<Rightarrow> (ws, calls)))
         else ([], []))"

text \<open>
  The same section of \<^verbatim>\<open>lambda_handler\<close>: the key is the literal of line 63, and the
  \<^verbatim>\<open>try\<close> is entered on every request. (The \<^verbatim>\<open>print\<close> of the handler is not
  modelled.)
\<close>

definition knmi_section_lambda :: "pylib \<Rightarrow> world \<Rightarrow> warning list \<times> call list" where
  "knmi_section_lambda lib w =
     (case fetch_knmi_warnings w ''KNMI_API_KEY_HIER'' of
        (Inl e, calls) \<Rightarrow> ([], calls)
      | (Inr knmi_xml, calls) \<Rightarrow>
          (case parse_knmi_warnings lib (utc_now w) knmi_xml of
             Inl e \<Rightarrow> ([], calls)
           | Inr ws \<Rightarrow> (ws, calls)))"

text \<open>The section \<^verbatim>\<open>BUILD RESPONSE\<close> of \<^verbatim>\<open>get_weather\<close>.\<close>

definition build_section_api :: "json \<Rightarrow> int \<Rightarrow> warning list \<Rightarrow> fastapi_result" where
  "build_section_api cached day ws =
     (case weather_response_mapper cached day ws of
        Inr api \<Rightarrow> Return (to_dict api)
      | Inl IndexError \<Rightarrow> HTTPException 400 (Message ''Day index out of range'')
      | Inl exc \<Rightarrow> HTTPException 500 (StrOf exc))"

text \<open>The same section of \<^verbatim>\<open>lambda_handler\<close>.\<close>

definition build_section_lambda :: "json \<Rightarrow> int \<Rightarrow> warning list \<Rightarrow> lambda_response" where
  "build_section_lambda cached day_index ws =
     (case weather_response_mapper cached day_index ws of
        Inr api \<Rightarrow> \<lparr> statusCode = 200, body = Dumps (to_dict api) \<rparr>
      | Inl IndexError \<Rightarrow>
          \<lparr> statusCode = 400, body = DumpsError (Message ''Day index out of range'') \<rparr>
      | Inl e \<Rightarrow> \<lparr> statusCode = 500, body = DumpsError (StrOf e) \<rparr>)"

text \<open>
  \<^verbatim>\<open>get_weather(day)\<close>. The parameter is declared \<^verbatim>\<open>Query(default=0, ge=0)\<close>, so the
  function body runs on non-negative integers only: \<open>day\<close> is a natural number. The
  result is the response, the globals after the request and the calls made, in order.
\<close>

definition get_weather ::
    "pylib \<Rightarrow> world \<Rightarrow> cache \<Rightarrow> nat \<Rightarrow> fastapi_result \<times> cache \<times> call list" where
  "get_weather lib w st day =
     (case weather_section_api w st of
        (None, calls) \<Rightarrow> (HTTPException 500 (Message ''Weather fetch failed''), st, calls)
      | (Some st', calls) \<Rightarrow>
          (case knmi_section_api lib w of
             (ws, calls') \<Rightarrow>
               (build_section_api (data_cache st') (int day) ws, st', calls @ calls')))"

text \<open>
  The event of the Lambda handler, as far as the handler reads it: the value under
  \<^verbatim>\<open>queryStringParameters\<close> is \<^verbatim>\<open>None\<close> or a dict whose values are strings or
  \<^verbatim>\<open>None\<close>.
\<close>

datatype qval = QStr string | QNull

record event =
  queryStringParameters :: "(string \<Rightarrow> qval option) option"

text \<open>
  Lines 20 to 27 of \<^verbatim>\<open>src/main.py\<close>: \<^verbatim>\<open>int(query_params.get('day', 0))\<close>, with 0 on
  \<^verbatim>\<open>ValueError\<close> and \<^verbatim>\<open>TypeError\<close>, then 0 for a negative number.
\<close>

definition day_index_of :: "pylib \<Rightarrow> event \<Rightarrow> int" where
  "day_index_of lib ev =
     (let query_params = (case queryStringParameters ev of None \<Rightarrow> Map.empty | Some q \<Rightarrow> q);
          day_index =
            (case query_params ''day'' of
               None \<Rightarrow> 0
             | Some QNull \<Rightarrow> 0
             | Some (QStr s) \<Rightarrow> (case int_of_str lib s of None \<Rightarrow> 0 | Some n \<Rightarrow> n))
      in if day_index < 0 then 0 else day_index)"

definition lambda_handler ::
    "pylib \<Rightarrow> world \<Rightarrow> cache \<Rightarrow> event \<Rightarrow> lambda_response \<times> cache \<times> call list" where
  "lambda_handler lib w st ev =
     (let day_index = day_index_of lib ev
      in case weather_section_lambda w st of
           (None, calls) \<Rightarrow>
             (\<lparr> statusCode = 500, body = DumpsError (Message ''Weather fetch failed'') \<rparr>,
              st, calls)
         | (Some st', calls) \<Rightarrow>
             (case knmi_section_lambda lib w of
                (ws, calls') \<Rightarrow>
                  (build_section_lambda (data_cache st') day_index ws, st', calls @ calls')))"

subsection \<open>The forecast payload as the specification describes it\<close>

text \<open>
  The specification's forecast payload maps a field name to a sequence of per-day values.
  The two definitions below follow its words, to be compared with \<open>get_val\<close> and
  \<open>from_api\<close>: a payload is well formed when \<^verbatim>\<open>response["daily"]\<close> is a dict in which
  each of the eleven tracked fields is absent or a list; and the value of a field on a day
  is the element at that index, \<open>JNull\<close> when the index is outside the list or the field
  is absent.
\<close>

definition tracked_fields :: "string list" where
  "tracked_fields =
     [''temperature_2m_min'', ''temperature_2m_max'', ''rain_sum'', ''showers_sum'',
      ''snowfall_sum'', ''sunrise'', ''sunset'', ''visibility_min'', ''visibility_max'',
      ''wind_speed_10m_max'', ''wind_gusts_10m_max'']"

definition field_ok :: "(string \<times> json) list \<Rightarrow> string \<Rightarrow> bool" where
  "field_ok d k = (case map_of d k of None \<Rightarrow> True | Some (JArr xs) \<Rightarrow> True | Some _ \<Rightarrow> False)"

definition forecast_payload :: "json \<Rightarrow> bool" where
  "forecast_payload response =
     (case getitem_str response ''daily'' of
        Inr (JObj d) \<Rightarrow> list_all (field_ok d) tracked_fields
      | _ \<Rightarrow> False)"

definition spec_field_value :: "(string \<times> json) list \<Rightarrow> int \<Rightarrow> string \<Rightarrow> json" where
  "spec_field_value d i k =
     (let xs = (case map_of d k of Some (JArr ys) \<Rightarrow> ys | _ \<Rightarrow> [])
      in if 0 \<le> i \<and> i < int (length xs) then xs ! nat i else JNull)"

text \<open>
  The specification's end of tomorrow: 23:59:59 UTC on the day after today, as a count
  of microseconds. To be compared with \<open>end_of_tomorrow\<close>.
\<close>

definition spec_end_of_tomorrow :: "int \<Rightarrow> int" where
  "spec_end_of_tomorrow now =
     (now div us_per_day + 1) * us_per_day + (23 * 3600 + 59 * 60 + 59) * us_per_second"

subsection \<open>Sample inputs\<close>

text \<open>The payload of the specification's example: two forecast days, one field.\<close>

definition two_day_payload :: json where
  "two_day_payload =
     JObj [(''daily'', JObj [(''temperature_2m_min'', JArr [JNum 2.1, JNum 3.4])])]"

definition two_day_cache :: cache where
  "two_day_cache = \<lparr> data_cache = two_day_payload, last_loaded = 1000 \<rparr>"

definition all_null :: RoadCastApiResponse where
  "all_null = \<lparr> min_temp = JNull, max_temp = JNull, rain = JNull, showers = JNull,
       snow = JNull, sunrise = JNull, sunset = JNull, min_visibility = JNull,
       max_visibility = JNull, wind_speed = JNull, wind_gusts = JNull, warnings = [] \<rparr>"

text \<open>A library that parses no XML and no time stamp, and reads two integers.\<close>

definition no_lib :: pylib where
  "no_lib =
     \<lparr> fromstring = (\<lambda>s. None), fromisoformat = (\<lambda>s. None),
       int_of_str = (\<lambda>s. if s = ''5'' then Some 5
                          else if s = ''-3'' then Some (- 3) else None) \<rparr>"

text \<open>
  A request at second 1060.5 of the epoch (00:17:40.5 UTC on 1 January 1970) with no
  \<^verbatim>\<open>KNMI_API_KEY\<close> in the environment, the forecast provider out of reach, and a
  warnings provider that answers every credential with a JSON object without
  \<^verbatim>\<open>"files"\<close>. The clock \<^verbatim>\<open>time.time()\<close> has just read 1060.
\<close>

definition offline_world :: world where
  "offline_world =
     \<lparr> time_time = 1060, utc_now = 1060500000, environ = (\<lambda>k. None),
       forecast_get = Inl RequestException,
       files_get = (\<lambda>k. Inr NoFiles),
       download_get = (\<lambda>u k. Inl RequestException) \<rparr>"

text \<open>Two entries of a file listing, and a warnings document with one warning that
  starts one microsecond after 23:59:59 of 2 January 1970, with its parsed form.\<close>

definition older_file :: knmi_file where
  "older_file = \<lparr> created = Some ''1969-12-31T12:00:00+00:00'',
                   downloadUrl = Some ''https://knmi.example/files/a.xml'' \<rparr>"

definition newer_file :: knmi_file where
  "newer_file = \<lparr> created = Some ''1970-01-01T00:00:00+00:00'',
                   downloadUrl = Some ''https://knmi.example/files/b.xml'' \<rparr>"

definition late_xml :: string where
  "late_xml = ''<data><warning><startTime>1970-01-02T23:59:59.000001+00:00</startTime><endTime>1970-01-03T06:00:00+00:00</endTime><awarenessLevel>yellow</awarenessLevel><phenomenon>WIND</phenomenon></warning></data>''"

definition late_tree :: element where
  "late_tree =
     Element ''data'' None
       [Element ''warning'' None
          [Element ''startTime'' (Some ''1970-01-02T23:59:59.000001+00:00'') [],
           Element ''endTime'' (Some ''1970-01-03T06:00:00+00:00'') [],
           Element ''awarenessLevel'' (Some ''yellow'') [],
           Element ''phenomenon'' (Some ''WIND'') []]]"

text \<open>A library that parses that document and its two time stamps: second 172799 of the
  epoch is 1970-01-02T23:59:59, second 194400 is 1970-01-03T06:00:00.\<close>

definition sample_lib :: pylib where
  "sample_lib =
     \<lparr> fromstring = (\<lambda>s. if s = late_xml then Some late_tree else None),
       fromisoformat =
         (\<lambda>s. if s = ''1970-01-02T23:59:59.000001+00:00'' then Some (Aware 172799000001)
              else if s = ''1970-01-03T06:00:00+00:00'' then Some (Aware 194400000000)
              else None),
       int_of_str = (\<lambda>s. None) \<rparr>"

text \<open>
  A request at the same instant, with no \<^verbatim>\<open>KNMI_API_KEY\<close> in the environment, and a
  warnings provider that answers every credential with a listing of three files and
  serves the newest one.
\<close>

definition open_world :: world where
  "open_world =
     \<lparr> time_time = 1060, utc_now = 1060500000, environ = (\<lambda>k. None),
       forecast_get = Inl RequestException,
       files_get = (\<lambda>k. Inr (Files [older_file, newer_file, older_file])),
       download_get =
         (\<lambda>u k. if u = ''https://knmi.example/files/b.xml'' then Inr late_xml
                else Inl RequestException) \<rparr>"

text \<open>The same request with the credential \<^verbatim>\<open>secret\<close> in the environment.\<close>

definition keyed_world :: world where
  "keyed_world =
     open_world\<lparr>environ := (\<lambda>k. if k = ''KNMI_API_KEY'' then Some ''secret'' else None)\<rparr>"

text \<open>The body the forecast provider sends with an error status.\<close>

definition error_body :: json where
  "error_body =
     JObj [(''error'', JBool True),
           (''reason'', JStr ''Minutely API request limit exceeded. Please try again in one minute.'')]"

text \<open>
  A request at second 2000.5 of the epoch, otherwise as the first sample, in which the
  forecast provider answers with status 429 and that body.
\<close>

definition throttled_world :: world where
  "throttled_world =
     offline_world\<lparr>time_time := 2000, utc_now := 2000500000,
       forecast_get := Inr \<lparr> status_code = 429, json_body = Some error_body \<rparr>\<rparr>"





section \<open>Properties\<close>

subsection \<open>Exceptions and the mapper\<close>

lemma exn_bind_Inr [simp]: "exn_bind (Inr x) f = f x"
  by (simp add: exn_bind_def)

lemma exn_bind_Inl [simp]: "exn_bind (Inl e) f = Inl e"
  by (simp add: exn_bind_def)

lemma exn_bind_IndexError:
  "exn_bind m f = Inl IndexError \<Longrightarrow>
   m = Inl IndexError \<or> (\<exists>x. m = Inr x \<and> f x = Inl IndexError)"
  by (cases m) auto

lemma get_val_ok:
  assumes "field_ok d k" and "0 \<le> i"
  shows "get_val (JObj d) i k = Inr (spec_field_value d i k)"
  using assms
  by (auto simp: get_val_def field_ok_def spec_field_value_def seq_getitem_def Let_def
           split: option.splits json.splits)

lemma from_api_ok:
  assumes "getitem_str response ''daily'' = Inr (JObj d)"
    and "list_all (field_ok d) tracked_fields"
    and "0 \<le> i"
  shows "from_api response i =
     Inr \<lparr> min_temp = spec_field_value d i ''temperature_2m_min'',
           max_temp = spec_field_value d i ''temperature_2m_max'',
           rain = spec_field_value d i ''rain_sum'',
           showers = spec_field_value d i ''showers_sum'',
           snow = spec_field_value d i ''snowfall_sum'',
           sunrise = spec_field_value d i ''sunrise'',
           sunset = spec_field_value d i ''sunset'',
           min_visibility = spec_field_value d i ''visibility_min'',
           max_visibility = spec_field_value d i ''visibility_max'',
           wind_speed = spec_field_value d i ''wind_speed_10m_max'',
           wind_gusts = spec_field_value d i ''wind_gusts_10m_max'',
           warnings = [] \<rparr>"
  using assms by (simp add: from_api_def tracked_fields_def get_val_ok)

lemma forecast_payload_not_null: "forecast_payload p \<Longrightarrow> p \<noteq> JNull"
  by (auto simp: forecast_payload_def)

lemma mapper_total:
  assumes "forecast_payload p" and "0 \<le> i"
  shows "\<exists>api. weather_response_mapper p i ws = Inr api"
proof -
  from assms(1) obtain d where d: "getitem_str p ''daily'' = Inr (JObj d)"
    and ok: "list_all (field_ok d) tracked_fields"
    by (auto simp: forecast_payload_def split: sum.splits json.splits)
  show ?thesis
    by (simp add: weather_response_mapper_def from_api_ok [OF d ok assms(2)])
qed

text \<open>With an index that is not negative, nothing in the mapper raises \<^verbatim>\<open>IndexError\<close>,
  whatever the payload.\<close>

lemma py_len_no_IndexError: "py_len v \<noteq> Inl IndexError"
  by (cases v) auto

lemma getitem_int_no_IndexError:
  "0 \<le> i \<Longrightarrow> py_len v = Inr n \<Longrightarrow> i < n \<Longrightarrow> getitem_int v i \<noteq> Inl IndexError"
  by (cases v) (auto simp: seq_getitem_def Let_def)

lemma dict_get_no_IndexError: "dict_get d k \<noteq> Inl IndexError"
  by (cases d) (auto split: option.splits)

lemma get_val_no_IndexError: "0 \<le> i \<Longrightarrow> get_val d i k \<noteq> Inl IndexError"
  unfolding get_val_def
  by (auto dest!: exn_bind_IndexError
           simp: py_len_no_IndexError dict_get_no_IndexError getitem_int_no_IndexError
           split: if_splits)

lemma getitem_str_no_IndexError: "getitem_str r k \<noteq> Inl IndexError"
  by (cases r) (auto split: option.splits)

lemma from_api_no_IndexError: "0 \<le> i \<Longrightarrow> from_api r i \<noteq> Inl IndexError"
  unfolding from_api_def
  by (auto dest!: exn_bind_IndexError simp: get_val_no_IndexError getitem_str_no_IndexError)

lemma mapper_no_IndexError: "0 \<le> i \<Longrightarrow> weather_response_mapper r i ws \<noteq> Inl IndexError"
  unfolding weather_response_mapper_def
  by (auto dest!: exn_bind_IndexError simp: from_api_no_IndexError)

lemma build_api_not_400: "0 \<le> i \<Longrightarrow> status_of (build_section_api r i ws) \<noteq> 400"
  using mapper_no_IndexError [of i r ws]
  by (auto simp: build_section_api_def split: sum.splits py_exn.splits)

lemma build_lambda_not_400: "0 \<le> i \<Longrightarrow> statusCode (build_section_lambda r i ws) \<noteq> 400"
  using mapper_no_IndexError [of i r ws]
  by (auto simp: build_section_lambda_def split: sum.splits py_exn.splits)

lemma day_index_of_nonneg: "0 \<le> day_index_of lib ev"
  by (simp add: day_index_of_def Let_def)

subsection \<open>The sections of the handlers\<close>




lemma get_weather_continues:
  "weather_section_api w st = (Some st', cs) \<Longrightarrow>
   get_weather lib w st day =
     (build_section_api (data_cache st') (int day) (fst (knmi_section_api lib w)),
      st', cs @ snd (knmi_section_api lib w))"
  by (simp add: get_weather_def split: prod.splits)

lemma lambda_handler_continues:
  "weather_section_lambda w st = (Some st', cs) \<Longrightarrow>
   lambda_handler lib w st ev =
     (build_section_lambda (data_cache st') (day_index_of lib ev)
        (fst (knmi_section_lambda lib w)),
      st', cs @ snd (knmi_section_lambda lib w))"
  by (simp add: lambda_handler_def split: prod.splits)


lemma lambda_handler_calls:
  "snd (snd (lambda_handler lib w st ev)) =
     snd (weather_section_lambda w st) @
     (if fst (weather_section_lambda w st) = None then []
      else snd (knmi_section_lambda lib w))"
  by (cases "weather_section_lambda w st")
     (auto simp: lambda_handler_def split: prod.splits option.splits)

lemma get_weather_state:
  "fst (snd (get_weather lib w st day)) =
     (case fst (weather_section_api w st) of None \<Rightarrow> st | Some st' \<Rightarrow> st')"
  by (cases "weather_section_api w st")
     (auto simp: get_weather_def split: prod.splits option.splits)

lemma lambda_handler_state:
  "fst (snd (lambda_handler lib w st ev)) =
     (case fst (weather_section_lambda w st) of None \<Rightarrow> st | Some st' \<Rightarrow> st')"
  by (cases "weather_section_lambda w st")
     (auto simp: lambda_handler_def split: prod.splits option.splits)

lemma weather_section_api_fail:
  "fetch_forecast_api w = Inl e \<Longrightarrow>
   weather_section_api w st =
     (if data_cache st = JNull then (None, [ForecastCall])
      else (Some st, if time_time w - last_loaded st > CACHE_TTL then [ForecastCall] else []))"
  by (simp add: weather_section_api_def Let_def)

lemma weather_section_lambda_fail:
  "fetch_forecast_lambda w = Inl e \<Longrightarrow>
   weather_section_lambda w st =
     (if data_cache st = JNull then (None, [ForecastCall])
      else (Some st, if time_time w - last_loaded st > CACHE_TTL then [ForecastCall] else []))"
  by (simp add: weather_section_lambda_def Let_def)

lemma weather_section_api_fresh:
  "data_cache st \<noteq> JNull \<Longrightarrow> time_time w - last_loaded st \<le> 120 \<Longrightarrow>
   weather_section_api w st = (Some st, [])"
  by (simp add: weather_section_api_def Let_def CACHE_TTL_def)

lemma weather_section_lambda_fresh:
  "data_cache st \<noteq> JNull \<Longrightarrow> time_time w - last_loaded st \<le> 120 \<Longrightarrow>
   weather_section_lambda w st = (Some st, [])"
  by (simp add: weather_section_lambda_def Let_def CACHE_TTL_def)



lemma weather_section_api_state:
  "fst (weather_section_api w st) = None \<or> fst (weather_section_api w st) = Some st
   \<or> (\<exists>p. fetch_forecast_api w = Inr p
        \<and> fst (weather_section_api w st)
            = Some \<lparr> data_cache = p, last_loaded = time_time w \<rparr>)"
  by (simp add: weather_section_api_def Let_def split: sum.splits)

lemma weather_section_lambda_state:
  "fst (weather_section_lambda w st) = None \<or> fst (weather_section_lambda w st) = Some st
   \<or> (\<exists>p. fetch_forecast_lambda w = Inr p
        \<and> fst (weather_section_lambda w st)
            = Some \<lparr> data_cache = p, last_loaded = time_time w \<rparr>)"
  by (simp add: weather_section_lambda_def Let_def split: sum.splits)

subsection \<open>Facts about the sample inputs\<close>

lemma two_day_daily:
  "getitem_str two_day_payload ''daily'' =
     Inr (JObj [(''temperature_2m_min'', JArr [JNum 2.1, JNum 3.4])])"
  by (simp add: two_day_payload_def)

lemma two_day_fields:
  "list_all (field_ok [(''temperature_2m_min'', JArr [JNum 2.1, JNum 3.4])]) tracked_fields"
  by (simp add: tracked_fields_def field_ok_def)

lemma two_day_is_payload: "forecast_payload two_day_payload"
  by (simp add: forecast_payload_def two_day_payload_def tracked_fields_def field_ok_def)

lemma two_day_not_null: "two_day_payload \<noteq> JNull"
  by (simp add: two_day_payload_def)

lemma mapper_two_day_5: "weather_response_mapper two_day_payload 5 [] = Inr all_null"
  using from_api_ok [OF two_day_daily two_day_fields, of 5]
  by (simp add: weather_response_mapper_def spec_field_value_def all_null_def)

lemma offline_fetch_api:
  "fetch_forecast_api (offline_world\<lparr>time_time := t\<rparr>) = Inl RequestException"
  by (simp add: fetch_forecast_api_def offline_world_def)

lemma offline_fetch_lambda:
  "fetch_forecast_lambda (offline_world\<lparr>time_time := t\<rparr>) = Inl RequestException"
  by (simp add: fetch_forecast_lambda_def offline_world_def)

subsection \<open>The newest file of a listing\<close>

lemma created_keys_all:
  "\<forall>f\<in>set fs. created f \<noteq> None \<Longrightarrow>
   created_keys fs = Inr (map (\<lambda>f. (the (created f), f)) fs)"
  by (induction fs) auto



lemma sorted_reverse_stable:
  "filter (\<lambda>p. fst p = k) (sorted_reverse keyed) = filter (\<lambda>p. fst p = k) keyed"
  by (simp add: sorted_reverse_def sort_key_stable flip: rev_filter)



lemma latest_file_first_among_ties:
  assumes "latest_file fs = Inr f"
  shows "\<exists>before after. fs = before @ f # after
           \<and> (\<forall>g\<in>set before. created g \<noteq> created f)"
proof -
  from assms obtain keyed where keys: "created_keys fs = Inr keyed"
    by (cases "created_keys fs") (auto simp: latest_file_def)
  have all: "\<forall>g\<in>set fs. created g \<noteq> None"
    using keys by (induction fs arbitrary: keyed) (auto split: option.splits sum.splits simp: exn_bind_def)
  then have keyed: "keyed = map (\<lambda>f. (the (created f), f)) fs"
    using keys created_keys_all by fastforce
  from assms keys obtain k rest where hd: "sorted_reverse keyed = (k, f) # rest"
    by (auto simp: latest_file_def split: list.splits)
  have "filter (\<lambda>p. fst p = k) keyed = (k, f) # filter (\<lambda>p. fst p = k) rest"
    using sorted_reverse_stable [of k keyed] hd by simp
  then obtain pre post where split: "keyed = pre @ (k, f) # post"
    and pre: "\<forall>p\<in>set pre. fst p \<noteq> k"
    by (auto simp: filter_eq_Cons_iff)
  from split keyed have "map (\<lambda>f. (the (created f), f)) fs = pre @ (k, f) # post"
    by simp
  then obtain before after where fs: "fs = before @ f # after"
    and b: "pre = map (\<lambda>f. (the (created f), f)) before"
    and kf: "the (created f) = k"
    by (auto simp: map_eq_append_conv map_eq_Cons_conv)
  have "\<forall>g\<in>set before. created g \<noteq> created f"
  proof
    fix g assume g: "g \<in> set before"
    with b pre have "the (created g) \<noteq> k" by auto
    with kf show "created g \<noteq> created f" by auto
  qed
  with fs show ?thesis by blast
qed


lemma latest_of_three: "latest_file [older_file, newer_file, older_file] = Inr newer_file"
  by (simp add: latest_file_def sorted_reverse_def older_file_def newer_file_def)

subsection \<open>The end of tomorrow and the activity test\<close>

text \<open>
  The instant the code compares start times with is the specification's 23:59:59 of
  tomorrow plus the part of a second that the current instant carries: \<open>replace\<close> sets
  hour, minute and second and leaves the microsecond of \<open>now\<close> in place.
\<close>

lemma end_of_tomorrow_eq:
  "end_of_tomorrow now = spec_end_of_tomorrow now + now mod us_per_second"
proof -
  have "us_per_day \<noteq> 0"
    by (simp add: us_per_day_def us_per_second_def)
  then have d: "(now + us_per_day) div us_per_day = now div us_per_day + 1"
    by simp
  have "(now + us_per_day) mod us_per_second = now mod us_per_second"
    by (simp add: us_per_day_def)
  with d show ?thesis
    by (simp add: end_of_tomorrow_def replace_hms_def spec_end_of_tomorrow_def)
qed

lemma is_active_aware:
  "is_active now (Aware s) (Aware e) = Inr (s \<le> end_of_tomorrow now \<and> now \<le> e)"
  by (simp add: is_active_def)

lemma whole_second_start:
  assumes "s mod us_per_second = 0"
  shows "(s \<le> end_of_tomorrow now) = (s \<le> spec_end_of_tomorrow now)"
proof -
  let ?r = "now mod us_per_second"
  have "spec_end_of_tomorrow now mod us_per_second = 0"
    by (simp add: spec_end_of_tomorrow_def us_per_day_def)
  then obtain b where b: "spec_end_of_tomorrow now = 1000000 * b"
    unfolding us_per_second_def by (auto simp: mod_eq_0_iff_dvd)
  from assms obtain a where a: "s = 1000000 * a"
    unfolding us_per_second_def by (auto simp: mod_eq_0_iff_dvd)
  have r: "0 \<le> ?r" "?r < 1000000"
    by (simp_all add: us_per_second_def)
  show ?thesis
  proof
    assume "s \<le> end_of_tomorrow now"
    then have le: "1000000 * a \<le> 1000000 * b + ?r"
      by (simp add: end_of_tomorrow_eq a b)
    show "s \<le> spec_end_of_tomorrow now"
    proof (rule ccontr)
      assume "\<not> s \<le> spec_end_of_tomorrow now"
      then have "b < a" by (simp add: a b)
      with le r show False by linarith
    qed
  next
    assume "s \<le> spec_end_of_tomorrow now"
    with r show "s \<le> end_of_tomorrow now"
      by (simp add: end_of_tomorrow_eq)
  qed
qed

text \<open>When every element carries two time stamps with a time zone, the loop keeps, in
  document order, the elements that pass the two comparisons.\<close>

lemma parse_loop_aware:
  assumes "\<forall>w\<in>set ws. parse_time lib w ''startTime'' = Inr (Aware (s w))
                     \<and> parse_time lib w ''endTime'' = Inr (Aware (e w))"
  shows "parse_loop lib now ws results =
     Inr (results @
          map (\<lambda>w. \<lparr> color = findtext w ''awarenessLevel'', type = findtext w ''phenomenon'' \<rparr>)
            (filter (\<lambda>w. s w \<le> end_of_tomorrow now \<and> now \<le> e w) ws))"
  using assms
  by (induction ws arbitrary: results) (simp_all add: is_active_aware)

subsection \<open>Failures of the warnings path\<close>

lemma fetch_rejected:
  "files_get w key = Inr NoFiles \<Longrightarrow> fst (fetch_knmi_warnings w key) = Inl KeyError"
  by (simp add: fetch_knmi_warnings_def)

lemma fetch_unreachable:
  "files_get w key = Inl e \<Longrightarrow> fst (fetch_knmi_warnings w key) = Inl e"
  by (simp add: fetch_knmi_warnings_def)

lemma parse_malformed:
  "fromstring lib xml = None \<Longrightarrow> parse_knmi_warnings lib now xml = Inl ParseError"
  by (simp add: parse_knmi_warnings_def)

lemma parse_time_missing:
  "findtext w name = None \<Longrightarrow> parse_time lib w name = Inl TypeError"
  by (simp add: parse_time_def)

lemma parse_loop_missing_field:
  assumes "\<exists>w\<in>set ws. findtext w ''startTime'' = None \<or> findtext w ''endTime'' = None"
  shows "\<exists>e. parse_loop lib now ws results = Inl e"
  using assms
proof (induction ws arbitrary: results)
  case Nil
  then show ?case by simp
next
  case (Cons w ws)
  show ?case
  proof (cases "parse_time lib w ''startTime''")
    case (Inl e)
    then show ?thesis by simp
  next
    case start: (Inr start)
    show ?thesis
    proof (cases "parse_time lib w ''endTime''")
      case (Inl e)
      with start show ?thesis by simp
    next
      case end_t: (Inr end_t)
      from start end_t have "findtext w ''startTime'' \<noteq> None" "findtext w ''endTime'' \<noteq> None"
        by (auto simp: parse_time_def split: option.splits)
      with Cons.prems have rest:
        "\<exists>w\<in>set ws. findtext w ''startTime'' = None \<or> findtext w ''endTime'' = None"
        by auto
      show ?thesis
      proof (cases "is_active now start end_t")
        case (Inl e)
        with start end_t show ?thesis by simp
      next
        case (Inr keep)
        with start end_t Cons.IH [OF rest] show ?thesis by simp
      qed
    qed
  qed
qed

subsection \<open>The credential of the two handlers\<close>

lemma knmi_section_api_without_key:
  "environ w ''KNMI_API_KEY'' = None \<or> environ w ''KNMI_API_KEY'' = Some [] \<Longrightarrow>
   knmi_section_api lib w = ([], [])"
  by (auto simp: knmi_section_api_def)

lemma fetch_forecast_lambda_environ:
  "fetch_forecast_lambda (w\<lparr>environ := env\<rparr>) = fetch_forecast_lambda w"
  by (simp add: fetch_forecast_lambda_def)

lemma fetch_knmi_warnings_environ:
  "fetch_knmi_warnings (w\<lparr>environ := env\<rparr>) key = fetch_knmi_warnings w key"
  by (simp add: fetch_knmi_warnings_def split: sum.splits listing.splits option.splits)

lemma weather_section_lambda_environ:
  "weather_section_lambda (w\<lparr>environ := env\<rparr>) st = weather_section_lambda w st"
  by (simp add: weather_section_lambda_def fetch_forecast_lambda_environ Let_def
           cong: if_cong)

lemma knmi_section_lambda_environ:
  "knmi_section_lambda lib (w\<lparr>environ := env\<rparr>) = knmi_section_lambda lib w"
  by (simp add: knmi_section_lambda_def fetch_knmi_warnings_environ
           split: prod.splits sum.splits)

lemma lambda_handler_environ_unread:
  "lambda_handler lib (w\<lparr>environ := env\<rparr>) st ev = lambda_handler lib w st ev"
  by (simp add: lambda_handler_def weather_section_lambda_environ
      knmi_section_lambda_environ split: prod.splits option.splits)

lemma fetch_knmi_lists_first:
  "\<exists>cs. snd (fetch_knmi_warnings w key) = FilesCall key # cs"
  by (auto simp: fetch_knmi_warnings_def split: sum.splits listing.splits option.splits)

lemma lambda_handler_always_lists:
  assumes "fst (weather_section_lambda w st) \<noteq> None"
  shows "FilesCall ''KNMI_API_KEY_HIER'' \<in> set (snd (snd (lambda_handler lib w st ev)))"
proof -
  obtain cs where "snd (fetch_knmi_warnings w ''KNMI_API_KEY_HIER'')
      = FilesCall ''KNMI_API_KEY_HIER'' # cs"
    using fetch_knmi_lists_first by blast
  then have "FilesCall ''KNMI_API_KEY_HIER'' \<in> set (snd (knmi_section_lambda lib w))"
    by (auto simp: knmi_section_lambda_def split: prod.splits sum.splits)
  with assms show ?thesis
    by (auto simp: lambda_handler_calls)
qed

subsection \<open>More facts about the sample inputs\<close>

lemma two_day_cache_data: "data_cache two_day_cache = two_day_payload"
  by (simp add: two_day_cache_def)

lemma mapper_two_day_0:
  "weather_response_mapper two_day_payload 0 ws
     = Inr (all_null\<lparr>min_temp := JNum 2.1, warnings := ws\<rparr>)"
  using from_api_ok [OF two_day_daily two_day_fields, of 0]
  by (simp add: weather_response_mapper_def spec_field_value_def all_null_def)

lemma newer_file_url: "downloadUrl newer_file = Some ''https://knmi.example/files/b.xml''"
  by (simp add: newer_file_def)

lemma open_world_fetch:
  "fetch_knmi_warnings open_world key
     = (Inr late_xml,
        [FilesCall key, DownloadCall ''https://knmi.example/files/b.xml'' key])"
  by (simp add: fetch_knmi_warnings_def open_world_def latest_of_three newer_file_url)

lemma offline_world_fetch:
  "fetch_knmi_warnings offline_world key = (Inl KeyError, [FilesCall key])"
  by (simp add: fetch_knmi_warnings_def offline_world_def)

lemma parse_late_xml:
  "parse_knmi_warnings sample_lib 1060500000 late_xml
     = Inr [\<lparr> color = Some ''yellow'', type = Some ''WIND'' \<rparr>]"
  by (simp add: parse_knmi_warnings_def sample_lib_def findall_def late_tree_def
      parse_time_def findtext_def is_active_def end_of_tomorrow_def replace_hms_def
      us_per_day_def us_per_second_def)

subsection \<open>An error status with a JSON body, and stamps of two formats\<close>

text \<open>
  The Lambda handler does not look at the status of the forecast provider's answer:
  whenever it fetches and the body decodes, the body becomes the cache.
\<close>

lemma lambda_caches_any_status:
  assumes "forecast_get w = Inr r" and "json_body r = Some j"
    and "data_cache st = JNull \<or> CACHE_TTL < time_time w - last_loaded st"
  shows "fst (snd (lambda_handler lib w st ev)) = \<lparr> data_cache = j, last_loaded = time_time w \<rparr>"
  using assms
  by (auto simp: lambda_handler_state weather_section_lambda_def fetch_forecast_lambda_def
        Let_def)

lemma mapper_error_body: "weather_response_mapper error_body i ws = Inl KeyError"
  by (simp add: weather_response_mapper_def from_api_def error_body_def)



subsection \<open>C1: a day index beyond the forecast days\<close>

text \<open>
  Both handlers answer 400 with the text "Day index out of range" when the mapper raises
  \<^verbatim>\<open>IndexError\<close>. The mapper is only ever called with an index that is not negative,
  and then \<open>get_val\<close> tests the index against the length before it subscripts: no
  request reaches the 400.
\<close>

lemma get_weather_never_400: "status_of (fst (get_weather lib w st day)) \<noteq> 400"
  by (auto simp: get_weather_def build_api_not_400 split: prod.splits option.splits)

lemma lambda_handler_never_400: "statusCode (fst (lambda_handler lib w st ev)) \<noteq> 400"
  by (auto simp: lambda_handler_def Let_def build_lambda_not_400 day_index_of_nonneg
           split: prod.splits option.splits)

text \<open>
  Claim C1 (a day index that exceeds the available forecast days is answered with 400),
  evaluated on the specification's example: the cached payload has two forecast days and
  the request asks for day 5. The FastAPI route returns a body, which is sent with status
  200, and the Lambda handler returns status 200; in both every field is null.
\<close>

theorem day_5_of_2_is_200:
  "get_weather no_lib offline_world two_day_cache 5
     = (Return (to_dict all_null), two_day_cache, [])
   \<and> status_of (Return (to_dict all_null)) = 200
   \<and> fst (lambda_handler no_lib offline_world two_day_cache
        \<lparr> queryStringParameters =
            Some (\<lambda>k. if k = ''day'' then Some (QStr ''5'') else None) \<rparr>)
      = \<lparr> statusCode = 200, body = Dumps (to_dict all_null) \<rparr>"
  by (simp add: get_weather_def lambda_handler_def weather_section_api_def
      weather_section_lambda_def knmi_section_api_def knmi_section_lambda_def
      fetch_knmi_warnings_def build_section_api_def build_section_lambda_def
      day_index_of_def no_lib_def offline_world_def two_day_cache_def CACHE_TTL_def
      mapper_two_day_5 two_day_not_null)

subsection \<open>C2: the lenient extraction of each field\<close>

text \<open>
  Claim C2, for day indices that are not negative: on a well-formed forecast payload the
  mapper raises nothing, and each of the eleven fields of its result is the value the
  specification describes: the element at the day index when the field is present and
  the index is inside its list, null when the field is absent or the list is too short.
  The warnings are attached as they are.
\<close>

theorem lenient_field_extraction:
  assumes "getitem_str response ''daily'' = Inr (JObj d)"
    and "list_all (field_ok d) tracked_fields"
    and "0 \<le> day_index"
  shows "weather_response_mapper response day_index ws =
     Inr \<lparr> min_temp = spec_field_value d day_index ''temperature_2m_min'',
           max_temp = spec_field_value d day_index ''temperature_2m_max'',
           rain = spec_field_value d day_index ''rain_sum'',
           showers = spec_field_value d day_index ''showers_sum'',
           snow = spec_field_value d day_index ''snowfall_sum'',
           sunrise = spec_field_value d day_index ''sunrise'',
           sunset = spec_field_value d day_index ''sunset'',
           min_visibility = spec_field_value d day_index ''visibility_min'',
           max_visibility = spec_field_value d day_index ''visibility_max'',
           wind_speed = spec_field_value d day_index ''wind_speed_10m_max'',
           wind_gusts = spec_field_value d day_index ''wind_gusts_10m_max'',
           warnings = ws \<rparr>"
  by (simp add: weather_response_mapper_def from_api_ok [OF assms])

text \<open>The specification's example: day 1 of the two-day payload has \<open>min_temp\<close> 3.4, and
  the ten absent fields are null.\<close>

theorem lenient_field_extraction_witness:
  "getitem_str two_day_payload ''daily''
     = Inr (JObj [(''temperature_2m_min'', JArr [JNum 2.1, JNum 3.4])])
   \<and> list_all (field_ok [(''temperature_2m_min'', JArr [JNum 2.1, JNum 3.4])]) tracked_fields
   \<and> (0::int) \<le> 1
   \<and> weather_response_mapper two_day_payload 1 [] = Inr (all_null\<lparr>min_temp := JNum 3.4\<rparr>)"
  using lenient_field_extraction [OF two_day_daily two_day_fields, of 1 "[]"]
    two_day_daily two_day_fields
  by (simp add: spec_field_value_def all_null_def)

text \<open>
  Claim C2 as stated, for every day index, fails on a negative one: the test
  \<^verbatim>\<open>index < len(values)\<close> is true, and \<^verbatim>\<open>values[-5]\<close> on a list of two raises
  \<^verbatim>\<open>IndexError\<close>, on a well-formed payload.
\<close>

theorem negative_day_index_raises:
  "forecast_payload two_day_payload
   \<and> get_val (JObj [(''temperature_2m_min'', JArr [JNum 2.1, JNum 3.4])]) (- 5)
        ''temperature_2m_min'' = Inl IndexError
   \<and> from_api two_day_payload (- 5) = Inl IndexError
   \<and> weather_response_mapper two_day_payload (- 5) [] = Inl IndexError"
proof -
  have field: "get_val (JObj [(''temperature_2m_min'', JArr [JNum 2.1, JNum 3.4])]) (- 5)
      ''temperature_2m_min'' = Inl IndexError"
    by (simp add: get_val_def seq_getitem_def)
  have api: "from_api two_day_payload (- 5) = Inl IndexError"
    by (simp add: from_api_def two_day_payload_def get_val_def seq_getitem_def)
  have "weather_response_mapper two_day_payload (- 5) [] = Inl IndexError"
    by (simp add: weather_response_mapper_def api)
  with two_day_is_payload field api show ?thesis
    by blast
qed

subsection \<open>C3: the boundary at the end of tomorrow\<close>

text \<open>
  Claim C3 (a warning is kept if and only if it starts at or before 23:59:59 UTC of
  tomorrow and ends at or after now), evaluated at 00:17:40.5 UTC on 1 January 1970
  (microsecond 1060500000 of the epoch) on a warning that starts at 23:59:59.000001 of
  2 January: the specification's end of tomorrow is second 172799, the code's is half a
  second later, the activity test is true and the parser keeps the warning, although it
  starts after 23:59:59.
\<close>

theorem start_after_235959_is_kept:
  "spec_end_of_tomorrow 1060500000 = 172799000000
   \<and> end_of_tomorrow 1060500000 = 172799500000
   \<and> is_active 1060500000 (Aware 172799000001) (Aware 194400000000) = Inr True
   \<and> parse_knmi_warnings sample_lib 1060500000 late_xml
       = Inr [\<lparr> color = Some ''yellow'', type = Some ''WIND'' \<rparr>]"
  by (simp add: parse_late_xml is_active_def end_of_tomorrow_def replace_hms_def
      spec_end_of_tomorrow_def us_per_day_def us_per_second_def)

subsection \<open>C4: a failed forecast fetch\<close>

text \<open>
  When the fetch raises in the handler (no connection, a body that does not decode, and
  in the FastAPI route also an error status), both handlers do what the claim says,
  provided the cached payload is a well-formed forecast payload: 500 with the text
  "Weather fetch failed" when nothing is cached, 200 built from the cached payload
  otherwise.
\<close>

lemma raised_fetch_serves_stale:
  "(fetch_forecast_api w = Inl e \<longrightarrow>
      (data_cache st = JNull \<longrightarrow>
         get_weather lib w st day =
           (HTTPException 500 (Message ''Weather fetch failed''), st, [ForecastCall]))
    \<and> (forecast_payload (data_cache st) \<longrightarrow>
         (\<exists>api. weather_response_mapper (data_cache st) (int day)
                   (fst (knmi_section_api lib w)) = Inr api
              \<and> fst (get_weather lib w st day) = Return (to_dict api)
              \<and> status_of (fst (get_weather lib w st day)) = 200)))
   \<and> (fetch_forecast_lambda w = Inl e' \<longrightarrow>
      (data_cache st = JNull \<longrightarrow>
         lambda_handler lib w st ev =
           (\<lparr> statusCode = 500, body = DumpsError (Message ''Weather fetch failed'') \<rparr>,
            st, [ForecastCall]))
    \<and> (forecast_payload (data_cache st) \<longrightarrow>
         (\<exists>api. weather_response_mapper (data_cache st) (day_index_of lib ev)
                   (fst (knmi_section_lambda lib w)) = Inr api
              \<and> fst (lambda_handler lib w st ev)
                  = \<lparr> statusCode = 200, body = Dumps (to_dict api) \<rparr>)))"
proof (intro conjI impI)
  assume "fetch_forecast_api w = Inl e" and "data_cache st = JNull"
  then show "get_weather lib w st day =
      (HTTPException 500 (Message ''Weather fetch failed''), st, [ForecastCall])"
    by (simp add: get_weather_def weather_section_api_fail)
next
  assume f: "fetch_forecast_api w = Inl e" and p: "forecast_payload (data_cache st)"
  obtain api where api: "weather_response_mapper (data_cache st) (int day)
      (fst (knmi_section_api lib w)) = Inr api"
    using mapper_total [OF p, of "int day"] by auto
  have "fst (get_weather lib w st day) = Return (to_dict api)"
    using forecast_payload_not_null [OF p] api
    by (simp add: get_weather_continues weather_section_api_fail [OF f]
          build_section_api_def)
  with api show "\<exists>api. weather_response_mapper (data_cache st) (int day)
        (fst (knmi_section_api lib w)) = Inr api
      \<and> fst (get_weather lib w st day) = Return (to_dict api)
      \<and> status_of (fst (get_weather lib w st day)) = 200"
    by simp
next
  assume "fetch_forecast_lambda w = Inl e'" and "data_cache st = JNull"
  then show "lambda_handler lib w st ev =
      (\<lparr> statusCode = 500, body = DumpsError (Message ''Weather fetch failed'') \<rparr>,
       st, [ForecastCall])"
    by (simp add: lambda_handler_def weather_section_lambda_fail)
next
  assume f: "fetch_forecast_lambda w = Inl e'" and p: "forecast_payload (data_cache st)"
  obtain api where api: "weather_response_mapper (data_cache st) (day_index_of lib ev)
      (fst (knmi_section_lambda lib w)) = Inr api"
    using mapper_total [OF p day_index_of_nonneg [of lib ev]] by blast
  have "fst (lambda_handler lib w st ev)
      = \<lparr> statusCode = 200, body = Dumps (to_dict api) \<rparr>"
    using forecast_payload_not_null [OF p] api
    by (simp add: lambda_handler_continues weather_section_lambda_fail [OF f]
          build_section_lambda_def)
  with api show "\<exists>api. weather_response_mapper (data_cache st) (day_index_of lib ev)
        (fst (knmi_section_lambda lib w)) = Inr api
      \<and> fst (lambda_handler lib w st ev)
          = \<lparr> statusCode = 200, body = Dumps (to_dict api) \<rparr>"
    by simp
qed

text \<open>
  Claim C4 (when the upstream forecast fetch fails and a payload is cached, the request
  succeeds with status 200 built from the stale payload; when nothing is cached it ends
  with a 500 whose body carries an \<^verbatim>\<open>error\<close> message), evaluated on a request at
  second 2000 with the two-day payload cached at second 1000, to which the forecast
  provider answers with status 429 and a JSON error body. The FastAPI route raises on the
  status, keeps its cache and answers 200 with the stale payload. The Lambda handler has
  no \<^verbatim>\<open>raise_for_status\<close>: it takes the error body for a forecast, overwrites the
  cache with it and answers 500, the mapper's \<^verbatim>\<open>KeyError\<close> on \<^verbatim>\<open>daily\<close>. And with
  nothing cached the FastAPI answer is a 500 whose body is \<^verbatim>\<open>{"detail": ...}\<close>, without
  an \<^verbatim>\<open>error\<close> field.
\<close>

theorem lambda_caches_error_body:
  "fetch_forecast_api throttled_world = Inl HTTPError
   \<and> get_weather no_lib throttled_world two_day_cache 0
       = (Return (to_dict (all_null\<lparr>min_temp := JNum 2.1\<rparr>)), two_day_cache, [ForecastCall])
   \<and> fetch_forecast_lambda throttled_world = Inr error_body
   \<and> lambda_handler no_lib throttled_world two_day_cache \<lparr> queryStringParameters = None \<rparr>
       = (\<lparr> statusCode = 500, body = DumpsError (StrOf KeyError) \<rparr>,
          \<lparr> data_cache = error_body, last_loaded = 2000 \<rparr>,
          [ForecastCall, FilesCall ''KNMI_API_KEY_HIER''])
   \<and> fastapi_response (fst (get_weather no_lib throttled_world initial_cache 0))
       = (500, Detail (Message ''Weather fetch failed''))"
proof -
  have fa: "fetch_forecast_api throttled_world = Inl HTTPError"
    by (simp add: fetch_forecast_api_def throttled_world_def)
  have fl: "fetch_forecast_lambda throttled_world = Inr error_body"
    by (simp add: fetch_forecast_lambda_def throttled_world_def)
  have t: "time_time throttled_world = 2000"
    by (simp add: throttled_world_def)
  have k: "knmi_section_api no_lib throttled_world = ([], [])"
    by (simp add: knmi_section_api_without_key throttled_world_def offline_world_def)
  have kf: "fetch_knmi_warnings throttled_world ''KNMI_API_KEY_HIER''
      = (Inl KeyError, [FilesCall ''KNMI_API_KEY_HIER''])"
    by (simp add: fetch_knmi_warnings_def throttled_world_def offline_world_def)
  have sa: "weather_section_api throttled_world two_day_cache
      = (Some two_day_cache, [ForecastCall])"
    by (simp add: weather_section_api_fail [OF fa] two_day_cache_data two_day_not_null t
        CACHE_TTL_def) (simp add: two_day_cache_def)
  have sl: "weather_section_lambda throttled_world two_day_cache
      = (Some \<lparr> data_cache = error_body, last_loaded = 2000 \<rparr>, [ForecastCall])"
    by (simp add: weather_section_lambda_def fl t CACHE_TTL_def two_day_cache_def)
  have a: "get_weather no_lib throttled_world two_day_cache 0
      = (Return (to_dict (all_null\<lparr>min_temp := JNum 2.1\<rparr>)), two_day_cache, [ForecastCall])"
    using mapper_two_day_0 [of "[]"]
    by (simp add: get_weather_continues [OF sa] k build_section_api_def two_day_cache_data
        all_null_def)
  have l: "lambda_handler no_lib throttled_world two_day_cache \<lparr> queryStringParameters = None \<rparr>
      = (\<lparr> statusCode = 500, body = DumpsError (StrOf KeyError) \<rparr>,
         \<lparr> data_cache = error_body, last_loaded = 2000 \<rparr>,
         [ForecastCall, FilesCall ''KNMI_API_KEY_HIER''])"
    by (simp add: lambda_handler_continues [OF sl] knmi_section_lambda_def kf
        build_section_lambda_def mapper_error_body)
  have e: "fastapi_response (fst (get_weather no_lib throttled_world initial_cache 0))
      = (500, Detail (Message ''Weather fetch failed''))"
    by (simp add: get_weather_def weather_section_api_fail [OF fa] initial_cache_def)
  from fa a fl l e show ?thesis by blast
qed

subsection \<open>C5: the credential of the warnings provider\<close>

text \<open>
  Claim C5 (in both shells the credential comes from an environment variable, and
  without it the warnings path is skipped), evaluated on requests with no
  \<^verbatim>\<open>KNMI_API_KEY\<close> in the environment. The FastAPI route makes no call and answers
  without warnings. The Lambda handler sends the literal of line 63 as the credential:
  it lists the files and downloads the newest one, and its response carries the warning
  found there; when the provider rejects the literal, the listing call is still made.
\<close>

theorem lambda_ignores_missing_credential:
  "environ open_world ''KNMI_API_KEY'' = None
   \<and> get_weather sample_lib open_world two_day_cache 0
       = (Return (to_dict (all_null\<lparr>min_temp := JNum 2.1\<rparr>)), two_day_cache, [])
   \<and> lambda_handler sample_lib open_world two_day_cache \<lparr> queryStringParameters = None \<rparr>
       = (\<lparr> statusCode = 200,
            body = Dumps (to_dict (all_null
              \<lparr>min_temp := JNum 2.1,
               warnings := [\<lparr> color = Some ''yellow'', type = Some ''WIND'' \<rparr>]\<rparr>)) \<rparr>,
          two_day_cache,
          [FilesCall ''KNMI_API_KEY_HIER'',
           DownloadCall ''https://knmi.example/files/b.xml'' ''KNMI_API_KEY_HIER''])
   \<and> snd (snd (lambda_handler no_lib offline_world two_day_cache
        \<lparr> queryStringParameters = None \<rparr>)) = [FilesCall ''KNMI_API_KEY_HIER'']"
proof -
  have env: "environ open_world ''KNMI_API_KEY'' = None"
    by (simp add: open_world_def)
  have fresh: "weather_section_api open_world two_day_cache = (Some two_day_cache, [])"
    "weather_section_lambda open_world two_day_cache = (Some two_day_cache, [])"
    "weather_section_lambda offline_world two_day_cache = (Some two_day_cache, [])"
    by (simp_all add: weather_section_api_fresh weather_section_lambda_fresh
        two_day_cache_def two_day_not_null open_world_def offline_world_def)
  have now: "utc_now open_world = 1060500000"
    by (simp add: open_world_def)
  have a: "get_weather sample_lib open_world two_day_cache 0
      = (Return (to_dict (all_null\<lparr>min_temp := JNum 2.1\<rparr>)), two_day_cache, [])"
    using mapper_two_day_0 [of "[]"]
    by (simp add: get_weather_continues [OF fresh(1)] knmi_section_api_without_key env
        build_section_api_def two_day_cache_data all_null_def)
  have l: "lambda_handler sample_lib open_world two_day_cache \<lparr> queryStringParameters = None \<rparr>
      = (\<lparr> statusCode = 200,
           body = Dumps (to_dict (all_null
             \<lparr>min_temp := JNum 2.1,
              warnings := [\<lparr> color = Some ''yellow'', type = Some ''WIND'' \<rparr>]\<rparr>)) \<rparr>,
         two_day_cache,
         [FilesCall ''KNMI_API_KEY_HIER'',
          DownloadCall ''https://knmi.example/files/b.xml'' ''KNMI_API_KEY_HIER''])"
    by (simp add: lambda_handler_continues [OF fresh(2)] knmi_section_lambda_def
        open_world_fetch now parse_late_xml build_section_lambda_def day_index_of_def
        two_day_cache_data mapper_two_day_0)
  have r: "snd (snd (lambda_handler no_lib offline_world two_day_cache
      \<lparr> queryStringParameters = None \<rparr>)) = [FilesCall ''KNMI_API_KEY_HIER'']"
    by (simp add: lambda_handler_continues [OF fresh(3)] knmi_section_lambda_def
        offline_world_fetch)
  from env a l r show ?thesis by blast
qed


subsection \<open>C6: the freshness window of the cache\<close>



subsection \<open>C7: failures of the warnings path are absorbed\<close>

text \<open>
  Claim C7, in both handlers (the FastAPI route with a credential in the environment,
  the Lambda handler with its literal). When the fetch of the warnings raises, or the
  fetch succeeds and parsing raises, whatever the exception, the warnings section yields
  the empty list; the handler's response is the one built with no warnings, and it has
  status 200 whenever the cached payload is a well-formed forecast payload.
\<close>

theorem warnings_failure_absorbed:
  assumes "fst (fetch_knmi_warnings w key) = Inl e
     \<or> (\<exists>xml. fst (fetch_knmi_warnings w key) = Inr xml
          \<and> parse_knmi_warnings lib (utc_now w) xml = Inl e)"
  shows "(environ w ''KNMI_API_KEY'' = Some key \<longrightarrow>
            fst (knmi_section_api lib w) = []
          \<and> (\<forall>st' cs. weather_section_api w st = (Some st', cs) \<longrightarrow>
                fst (get_weather lib w st day)
                  = build_section_api (data_cache st') (int day) []
              \<and> (forecast_payload (data_cache st') \<longrightarrow>
                    status_of (fst (get_weather lib w st day)) = 200)))
       \<and> (key = ''KNMI_API_KEY_HIER'' \<longrightarrow>
            fst (knmi_section_lambda lib w) = []
          \<and> (\<forall>st' cs. weather_section_lambda w st = (Some st', cs) \<longrightarrow>
                fst (lambda_handler lib w st ev)
                  = build_section_lambda (data_cache st') (day_index_of lib ev) []
              \<and> (forecast_payload (data_cache st') \<longrightarrow>
                    statusCode (fst (lambda_handler lib w st ev)) = 200)))"
proof (intro conjI impI)
  assume k: "environ w ''KNMI_API_KEY'' = Some key"
  show a: "fst (knmi_section_api lib w) = []"
    using assms k
    by (cases "fetch_knmi_warnings w key") (auto simp: knmi_section_api_def)
  show "\<forall>st' cs. weather_section_api w st = (Some st', cs) \<longrightarrow>
      fst (get_weather lib w st day) = build_section_api (data_cache st') (int day) []
      \<and> (forecast_payload (data_cache st') \<longrightarrow>
            status_of (fst (get_weather lib w st day)) = 200)"
  proof (intro allI impI conjI)
    fix st' cs assume s: "weather_section_api w st = (Some st', cs)"
    show r: "fst (get_weather lib w st day)
        = build_section_api (data_cache st') (int day) []"
      by (simp add: get_weather_continues [OF s] a)
    assume "forecast_payload (data_cache st')"
    from mapper_total [OF this, of "int day" "[]"]
    show "status_of (fst (get_weather lib w st day)) = 200"
      by (auto simp: r build_section_api_def)
  qed
next
  assume k: "key = ''KNMI_API_KEY_HIER''"
  show a: "fst (knmi_section_lambda lib w) = []"
    using assms k
    by (cases "fetch_knmi_warnings w key") (auto simp: knmi_section_lambda_def)
  show "\<forall>st' cs. weather_section_lambda w st = (Some st', cs) \<longrightarrow>
      fst (lambda_handler lib w st ev)
        = build_section_lambda (data_cache st') (day_index_of lib ev) []
      \<and> (forecast_payload (data_cache st') \<longrightarrow>
            statusCode (fst (lambda_handler lib w st ev)) = 200)"
  proof (intro allI impI conjI)
    fix st' cs assume s: "weather_section_lambda w st = (Some st', cs)"
    show r: "fst (lambda_handler lib w st ev)
        = build_section_lambda (data_cache st') (day_index_of lib ev) []"
      by (simp add: lambda_handler_continues [OF s] a)
    assume "forecast_payload (data_cache st')"
    from mapper_total [OF this day_index_of_nonneg [of lib ev], of "[]"]
    show "statusCode (fst (lambda_handler lib w st ev)) = 200"
      by (auto simp: r build_section_lambda_def)
  qed
qed

text \<open>A rejected credential in the Lambda handler, and a document that does not parse in
  the FastAPI route: both answer 200 without warnings.\<close>

theorem warnings_failure_absorbed_witness:
  "fst (fetch_knmi_warnings offline_world ''KNMI_API_KEY_HIER'') = Inl KeyError
   \<and> fst (lambda_handler no_lib offline_world two_day_cache \<lparr> queryStringParameters = None \<rparr>)
       = \<lparr> statusCode = 200, body = Dumps (to_dict (all_null\<lparr>min_temp := JNum 2.1\<rparr>)) \<rparr>
   \<and> environ keyed_world ''KNMI_API_KEY'' = Some ''secret''
   \<and> fst (fetch_knmi_warnings keyed_world ''secret'') = Inr late_xml
   \<and> parse_knmi_warnings no_lib (utc_now keyed_world) late_xml = Inl ParseError
   \<and> fst (get_weather no_lib keyed_world two_day_cache 0)
       = Return (to_dict (all_null\<lparr>min_temp := JNum 2.1\<rparr>))"
proof -
  let ?ev = "\<lparr> queryStringParameters = None \<rparr>"
  have f1: "fst (fetch_knmi_warnings offline_world ''KNMI_API_KEY_HIER'') = Inl KeyError"
    by (simp add: offline_world_fetch)
  have s1: "weather_section_lambda offline_world two_day_cache = (Some two_day_cache, [])"
    by (simp add: weather_section_lambda_fresh two_day_cache_def two_day_not_null
        offline_world_def)
  have d: "day_index_of no_lib ?ev = 0"
    by (simp add: day_index_of_def)
  from warnings_failure_absorbed [of offline_world "''KNMI_API_KEY_HIER''" KeyError no_lib
      two_day_cache 0 ?ev] f1 s1
  have "fst (lambda_handler no_lib offline_world two_day_cache ?ev)
      = build_section_lambda (data_cache two_day_cache) (day_index_of no_lib ?ev) []"
    by blast
  then have l: "fst (lambda_handler no_lib offline_world two_day_cache ?ev)
      = \<lparr> statusCode = 200, body = Dumps (to_dict (all_null\<lparr>min_temp := JNum 2.1\<rparr>)) \<rparr>"
    by (simp add: d build_section_lambda_def two_day_cache_data mapper_two_day_0 all_null_def)
  have env: "environ keyed_world ''KNMI_API_KEY'' = Some ''secret''"
    by (simp add: keyed_world_def)
  have f2: "fst (fetch_knmi_warnings keyed_world ''secret'') = Inr late_xml"
    by (simp add: keyed_world_def fetch_knmi_warnings_environ open_world_fetch)
  have p2: "parse_knmi_warnings no_lib (utc_now keyed_world) late_xml = Inl ParseError"
    by (simp add: parse_malformed no_lib_def)
  have s2: "weather_section_api keyed_world two_day_cache = (Some two_day_cache, [])"
    by (simp add: weather_section_api_fresh two_day_cache_def two_day_not_null
        keyed_world_def open_world_def)
  from warnings_failure_absorbed [of keyed_world "''secret''" ParseError no_lib
      two_day_cache 0 ?ev] f2 p2 env s2
  have "fst (get_weather no_lib keyed_world two_day_cache 0)
      = build_section_api (data_cache two_day_cache) (int 0) []"
    by blast
  then have a: "fst (get_weather no_lib keyed_world two_day_cache 0)
      = Return (to_dict (all_null\<lparr>min_temp := JNum 2.1\<rparr>))"
    by (simp add: build_section_api_def two_day_cache_data mapper_two_day_0 all_null_def)
  from f1 l env f2 p2 a show ?thesis by blast
qed

subsection \<open>C8: the file with the greatest creation stamp is the one downloaded\<close>




subsection \<open>C9: the \<open>day\<close> parameter of the Lambda handler\<close>

text \<open>
  Claim C9. When the query parameter \<^verbatim>\<open>day\<close> is absent (no query parameters at all, or
  none of that name), is not parseable as an integer (\<^verbatim>\<open>None\<close>, or a string that
  \<^verbatim>\<open>int\<close> refuses), or is a negative integer, the Lambda handler works with day index 0:
  its response, the cache it leaves and the calls it makes are those of a request without
  query parameters.
\<close>

theorem bad_day_is_today:
  assumes "queryStringParameters ev = None
     \<or> (\<exists>q. queryStringParameters ev = Some q
          \<and> (q ''day'' = None \<or> q ''day'' = Some QNull
             \<or> (\<exists>s. q ''day'' = Some (QStr s)
                  \<and> (int_of_str lib s = None \<or> (\<exists>n. int_of_str lib s = Some n \<and> n < 0)))))"
  shows "day_index_of lib ev = 0
     \<and> lambda_handler lib w st ev = lambda_handler lib w st \<lparr> queryStringParameters = None \<rparr>"
proof -
  have d: "day_index_of lib ev = 0"
    using assms by (auto simp: day_index_of_def Let_def)
  have "day_index_of lib \<lparr> queryStringParameters = None \<rparr> = 0"
    by (simp add: day_index_of_def)
  with d show ?thesis
    by (simp add: lambda_handler_def)
qed

text \<open>The strings \<^verbatim>\<open>-3\<close> and \<^verbatim>\<open>tomorrow\<close>, and a query without \<^verbatim>\<open>day\<close>, all give
  day index 0.\<close>

theorem bad_day_is_today_witness:
  "int_of_str no_lib ''-3'' = Some (- 3)
   \<and> int_of_str no_lib ''tomorrow'' = None
   \<and> day_index_of no_lib
        \<lparr> queryStringParameters = Some (\<lambda>k. if k = ''day'' then Some (QStr ''-3'') else None) \<rparr> = 0
   \<and> day_index_of no_lib
        \<lparr> queryStringParameters = Some (\<lambda>k. if k = ''day'' then Some (QStr ''tomorrow'') else None) \<rparr> = 0
   \<and> day_index_of no_lib \<lparr> queryStringParameters = Some (\<lambda>k. None) \<rparr> = 0"
  using bad_day_is_today [of "\<lparr> queryStringParameters = Some (\<lambda>k. if k = ''day'' then Some (QStr ''-3'') else None) \<rparr>" no_lib]
    bad_day_is_today [of "\<lparr> queryStringParameters = Some (\<lambda>k. if k = ''day'' then Some (QStr ''tomorrow'') else None) \<rparr>" no_lib]
    bad_day_is_today [of "\<lparr> queryStringParameters = Some (\<lambda>k. None) \<rparr>" no_lib]
  by (simp add: no_lib_def)

subsection \<open>C10: a failed fetch leaves the cache untouched\<close>

text \<open>
  Claim C10, in both handlers. When the forecast fetch fails, the globals after the
  request are the globals before it. And in every case the globals after the request are
  either unchanged, or the fetch succeeded and they hold its payload together with the
  time of this request: the two are never updated apart.
\<close>

theorem failed_fetch_leaves_cache:
  "(fetch_forecast_api w = Inl e \<longrightarrow> fst (snd (get_weather lib w st day)) = st)
   \<and> (fetch_forecast_lambda w = Inl e' \<longrightarrow> fst (snd (lambda_handler lib w st ev)) = st)
   \<and> (fst (snd (get_weather lib w st day)) = st
      \<or> (\<exists>p. fetch_forecast_api w = Inr p
           \<and> fst (snd (get_weather lib w st day))
               = \<lparr> data_cache = p, last_loaded = time_time w \<rparr>))
   \<and> (fst (snd (lambda_handler lib w st ev)) = st
      \<or> (\<exists>p. fetch_forecast_lambda w = Inr p
           \<and> fst (snd (lambda_handler lib w st ev))
               = \<lparr> data_cache = p, last_loaded = time_time w \<rparr>))"
proof (intro conjI impI)
  assume "fetch_forecast_api w = Inl e"
  then show "fst (snd (get_weather lib w st day)) = st"
    by (simp add: get_weather_state weather_section_api_fail)
next
  assume "fetch_forecast_lambda w = Inl e'"
  then show "fst (snd (lambda_handler lib w st ev)) = st"
    by (simp add: lambda_handler_state weather_section_lambda_fail)
next
  show "fst (snd (get_weather lib w st day)) = st
      \<or> (\<exists>p. fetch_forecast_api w = Inr p
           \<and> fst (snd (get_weather lib w st day))
               = \<lparr> data_cache = p, last_loaded = time_time w \<rparr>)"
    using weather_section_api_state [of w st] by (auto simp: get_weather_state)
next
  show "fst (snd (lambda_handler lib w st ev)) = st
      \<or> (\<exists>p. fetch_forecast_lambda w = Inr p
           \<and> fst (snd (lambda_handler lib w st ev))
               = \<lparr> data_cache = p, last_loaded = time_time w \<rparr>)"
    using weather_section_lambda_state [of w st] by (auto simp: lambda_handler_state)
qed

text \<open>A request at second 2000 with the forecast provider out of reach leaves the cache
  of second 1000 as it was.\<close>

theorem failed_fetch_leaves_cache_witness:
  "fetch_forecast_api (offline_world\<lparr>time_time := 2000\<rparr>) = Inl RequestException
   \<and> fetch_forecast_lambda (offline_world\<lparr>time_time := 2000\<rparr>) = Inl RequestException
   \<and> fst (snd (get_weather no_lib (offline_world\<lparr>time_time := 2000\<rparr>) two_day_cache 0))
       = two_day_cache
   \<and> fst (snd (lambda_handler no_lib (offline_world\<lparr>time_time := 2000\<rparr>) two_day_cache
         \<lparr> queryStringParameters = None \<rparr>)) = two_day_cache"
  using failed_fetch_leaves_cache [of "offline_world\<lparr>time_time := 2000\<rparr>" RequestException
      no_lib two_day_cache 0 RequestException "\<lparr> queryStringParameters = None \<rparr>"]
    offline_fetch_api [of 2000] offline_fetch_lambda [of 2000]
  by simp

end
